theory Spec2Isabelle
  imports Complex_Main
begin

section \<open>The sample module: \<^verbatim>\<open>tooltest/sample.py\<close>\<close>

subsection \<open>Data model\<close>

text \<open>
  The dictionary built by \<^verbatim>\<open>process_data\<close> always has the three literal keys
  \<^verbatim>\<open>'id'\<close>, \<^verbatim>\<open>'content'\<close> and \<^verbatim>\<open>'status'\<close>, so it is a record with one field per key.
  The key \<^verbatim>\<open>'id'\<close> is written \<open>id_val\<close>, since \<open>id\<close> is the identity function of HOL.
  Its value is \<^verbatim>\<open>len(self.data)\<close>, a length, hence a natural number. The content is
  whatever the caller passes: the type variable \<open>'a\<close>.
\<close>

record 'a processed =
  id_val :: nat
  content :: 'a
  status :: string

text \<open>
  An instance of \<^verbatim>\<open>DataProcessor\<close> has the single attribute \<^verbatim>\<open>data\<close>, a list of the
  dictionaries created so far, oldest first.
\<close>

record 'a DataProcessor =
  data :: "'a processed list"

subsection \<open>Operations\<close>

text \<open>\<^verbatim>\<open>__init__\<close>: \<^verbatim>\<open>self.data = []\<close>.\<close>

definition DataProcessor_init :: "'a DataProcessor" where
  "DataProcessor_init = \<lparr>data = []\<rparr>"

text \<open>
  \<^verbatim>\<open>process_data(self, input_data)\<close> builds the dictionary, appends it to
  \<^verbatim>\<open>self.data\<close> and returns it. The mutation of \<^verbatim>\<open>self\<close> is explicit: the function
  returns the dictionary together with the instance after the call. The body has no
  \<^verbatim>\<open>raise\<close> and no operation that can fail on a list, so there is no error branch.
\<close>

definition process_data :: "'a DataProcessor \<Rightarrow> 'a \<Rightarrow> 'a processed \<times> 'a DataProcessor" where
  "process_data self input_data =
     (let processed = \<lparr>id_val = length (data self),
                        content = input_data,
                        status = ''processed''\<rparr>
      in (processed, self\<lparr>data := data self @ [processed]\<rparr>))"

text \<open>
  A caller making successive calls on one instance, one call per element of the
  input list, in order. It returns the dictionaries in call order and the instance
  after the last call.
\<close>

fun process_all :: "'a DataProcessor \<Rightarrow> 'a list \<Rightarrow> 'a processed list \<times> 'a DataProcessor" where
  "process_all self [] = ([], self)"
| "process_all self (x # xs) =
     (case process_data self x of
        (r, self') \<Rightarrow>
          (case process_all self' xs of
             (rs, self'') \<Rightarrow> (r # rs, self'')))"

text \<open>
  \<^verbatim>\<open>calculate_sum(numbers)\<close>: the loop \<^verbatim>\<open>for num in numbers: total += num\<close> is the
  recursive function \<open>calculate_sum_loop\<close>, whose first argument is the running
  \<^verbatim>\<open>total\<close> (written \<open>total'\<close>, since \<open>total\<close> is a constant of HOL);
  \<open>calculate_sum\<close> starts it at \<^verbatim>\<open>0\<close>. The element type is any type with a zero
  and an addition, as the Python is untyped.
\<close>

fun calculate_sum_loop :: "'a::plus \<Rightarrow> 'a list \<Rightarrow> 'a" where
  "calculate_sum_loop total' [] = total'"
| "calculate_sum_loop total' (num # numbers) = calculate_sum_loop (total' + num) numbers"

definition calculate_sum :: "'a::{zero,plus} list \<Rightarrow> 'a" where
  "calculate_sum numbers = calculate_sum_loop 0 numbers"

text \<open>
  The invariant of an instance: the identifiers stored in \<^verbatim>\<open>self.data\<close>, read in
  insertion order, are \<open>0, 1, \<dots>, len(self.data) - 1\<close>, that is, every stored
  dictionary's identifier is its index.
\<close>

definition ids_match_index :: "'a DataProcessor \<Rightarrow> bool" where
  "ids_match_index self = (map id_val (data self) = [0..<length (data self)])"

subsection \<open>Module scope\<close>

text \<open>
  The values a Python expression of this module can have where the type is not fixed
  by the code: the values of \<^verbatim>\<open>CONFIGURATION\<close> and the result of a call that falls
  off the end of a function body (\<^verbatim>\<open>None\<close>).
\<close>

datatype py_value = PyNone | PyBool bool | PyInt int | PyStr string

text \<open>
  The names bound at module scope once \<^verbatim>\<open>sample.py\<close> has been loaded. The global
  \<^verbatim>\<open>total\<close> is written \<open>total_val\<close>, since \<open>total\<close> is a constant of HOL.
\<close>

record sample_globals =
  CONFIGURATION :: "(string \<times> py_value) list"
  processor :: "string DataProcessor"
  result :: "string processed"
  total_val :: int

text \<open>
  Loading the module runs its statements top to bottom: the dictionary literal, then
  lines 29 to 31.
\<close>

definition sample_module :: sample_globals where
  "sample_module =
     (let config = [(''database_url'', PyStr ''postgresql://localhost:5432/test''),
                    (''debug'', PyBool True),
                    (''max_connections'', PyInt 100)];
          p0 = DataProcessor_init
      in case process_data p0 ''test content'' of
           (r, p1) \<Rightarrow>
             \<lparr>CONFIGURATION = config,
              processor = p1,
              result = r,
              total_val = calculate_sum [1, 2, 3, 4, 5]\<rparr>)"

section \<open>The search fixtures: \<^verbatim>\<open>tooltest/test_functions.py\<close>\<close>

text \<open>
  None of the four bodies reads or writes anything, so each is modelled over an
  arbitrary program state \<open>'s\<close> (globals and heap), which it receives and returns
  together with its result. A body that ends without \<^verbatim>\<open>return\<close> yields \<^verbatim>\<open>None\<close>;
  a call used as a statement discards the callee's result and keeps the state the
  callee left.
\<close>

definition search_target_function :: "'s \<Rightarrow> py_value \<times> 's" where
  "search_target_function s = (PyNone, s)"

definition another_function :: "'s \<Rightarrow> py_value \<times> 's" where
  "another_function s =
     (case search_target_function s of (_, s') \<Rightarrow> (PyNone, s'))"

text \<open>An instance of \<^verbatim>\<open>SampleClass\<close> has no attributes.\<close>

datatype SampleClass = SampleClass

definition method_one :: "SampleClass \<Rightarrow> 's \<Rightarrow> py_value \<times> 's" where
  "method_one self s = (PyNone, s)"

definition method_two :: "SampleClass \<Rightarrow> 's \<Rightarrow> py_value \<times> 's" where
  "method_two self s =
     (case method_one self s of (_, s') \<Rightarrow> (PyNone, s'))"

section \<open>Python floats\<close>

text \<open>
  \<^verbatim>\<open>calculate_sum\<close> accepts any numbers, floats among them. A Python float is an
  IEEE 754 binary64 value. \<open>Finite m e\<close> is the number \<open>m * 2 ^ e\<close>, kept in lowest
  terms (\<open>m\<close> odd, or \<open>m = 0\<close> and \<open>e = 0\<close>); the other constructors are
  \<^verbatim>\<open>inf\<close>, \<^verbatim>\<open>-inf\<close> and \<^verbatim>\<open>nan\<close>. The two zeros are one value here, as they
  are for Python's \<^verbatim>\<open>==\<close>.
\<close>

datatype py_float = Finite int int | PosInf | NegInf | NaN

text \<open>The number of binary digits of a positive integer.\<close>

function bitlen :: "int \<Rightarrow> int" where
  "bitlen n = (if n \<le> 0 then 0 else 1 + bitlen (n div 2))"
  by pat_completeness auto
termination
  by (relation "measure nat") auto

declare bitlen.simps [simp del]

text \<open>
  \<open>round_half_even a k\<close> is \<open>a / 2 ^ k\<close> rounded to the nearest integer, a tie going to
  the even neighbour (\<open>a\<close> is a magnitude, \<open>0 \<le> a\<close>).
\<close>

definition round_half_even :: "int \<Rightarrow> int \<Rightarrow> int" where
  "round_half_even a k =
     (if k \<le> 0 then a
      else let q = a div 2 ^ nat k; r = a mod 2 ^ nat k; half = 2 ^ nat (k - 1)
           in if half < r \<or> (r = half \<and> odd q) then q + 1 else q)"

text \<open>\<open>strip_zeros a e\<close> brings \<open>a * 2 ^ e\<close> to lowest terms.\<close>

function strip_zeros :: "int \<Rightarrow> int \<Rightarrow> int \<times> int" where
  "strip_zeros a e =
     (if a \<le> 0 then (0, 0)
      else if even a then strip_zeros (a div 2) (e + 1)
      else (a, e))"
  by pat_completeness auto
termination
  by (relation "measure (\<lambda>(a, e). nat a)") auto

declare strip_zeros.simps [simp del]

text \<open>
  \<open>float_round m e\<close> is the binary64 value nearest to the exact number \<open>m * 2 ^ e\<close>:
  the magnitude keeps at most 53 binary digits and is a multiple of \<open>2 ^ - 1074\<close>
  (so \<open>k\<close> low digits are rounded away, half to even), and a rounded magnitude of
  \<open>2 ^ 1024\<close> or more is an infinity.
\<close>

definition float_round :: "int \<Rightarrow> int \<Rightarrow> py_float" where
  "float_round m e =
     (let k = max 0 (max (bitlen \<bar>m\<bar> - 53) (- 1074 - e))
      in case strip_zeros (round_half_even \<bar>m\<bar> k) (e + k) of
           (a, e') \<Rightarrow>
             if 1024 < bitlen a + e' then (if m < 0 then NegInf else PosInf)
             else Finite (if m < 0 then - a else a) e')"

text \<open>
  Float addition: the exact sum, rounded. \<^verbatim>\<open>total = 0\<close> starts the loop with the
  integer 0, which Python converts to the float zero when the first float is added.
\<close>

instantiation py_float :: "{zero, plus}"
begin

definition zero_py_float :: py_float where
  "zero_py_float = Finite 0 0"

fun plus_py_float :: "py_float \<Rightarrow> py_float \<Rightarrow> py_float" where
  "plus_py_float NaN y = NaN"
| "plus_py_float x NaN = NaN"
| "plus_py_float PosInf NegInf = NaN"
| "plus_py_float NegInf PosInf = NaN"
| "plus_py_float PosInf y = PosInf"
| "plus_py_float x PosInf = PosInf"
| "plus_py_float NegInf y = NegInf"
| "plus_py_float x NegInf = NegInf"
| "plus_py_float (Finite m1 e1) (Finite m2 e2) =
     (let e = min e1 e2
      in float_round (m1 * 2 ^ nat (e1 - e) + m2 * 2 ^ nat (e2 - e)) e)"

instance ..

end

text \<open>\<^verbatim>\<open>float(n)\<close> for an integer \<open>n\<close>; \<open>float_of_int (10 ^ 16)\<close> is \<^verbatim>\<open>1e16\<close>.\<close>

definition float_of_int :: "int \<Rightarrow> py_float" where
  "float_of_int n = float_round n 0"

text \<open>The rational number a finite float stands for.\<close>

fun float_val :: "py_float \<Rightarrow> rat option" where
  "float_val (Finite m e) =
     Some (if 0 \<le> e then of_int (m * 2 ^ nat e) else of_int m / of_int (2 ^ nat (- e)))"
| "float_val PosInf = None"
| "float_val NegInf = None"
| "float_val NaN = None"

text \<open>The mathematical sum of the numbers a list of finite floats stands for.\<close>

definition exact_sum :: "py_float list \<Rightarrow> rat option" where
  "exact_sum numbers = map_option sum_list (those (map float_val numbers))"

section \<open>Properties\<close>

subsection \<open>One call and a run of calls\<close>

lemma process_data_fst:
  "fst (process_data self x) =
     \<lparr>id_val = length (data self), content = x, status = ''processed''\<rparr>"
  by (simp add: process_data_def Let_def)

lemma process_data_snd:
  "data (snd (process_data self x)) = data self @ [fst (process_data self x)]"
  by (simp add: process_data_def Let_def)

text \<open>The second equation of \<open>process_all\<close>, with projections in place of the cases.\<close>

lemma process_all_Cons:
  "process_all self (x # xs) =
     (fst (process_data self x) # fst (process_all (snd (process_data self x)) xs),
      snd (process_all (snd (process_data self x)) xs))"
  by (simp add: case_prod_beta)

lemma process_all_length:
  "length (fst (process_all self xs)) = length xs"
  by (induction xs arbitrary: self)
     (simp_all add: process_all_Cons del: process_all.simps(2))

text \<open>A run appends to \<^verbatim>\<open>self.data\<close> exactly the dictionaries it returns, in call order.\<close>

lemma process_all_data:
  "data (snd (process_all self xs)) = data self @ fst (process_all self xs)"
  by (induction xs arbitrary: self)
     (simp_all add: process_all_Cons process_data_snd del: process_all.simps(2))

text \<open>
  The identifiers a run returns count up from the length \<^verbatim>\<open>self.data\<close> had when the run
  began. The instance is generalised, since every call changes it.
\<close>

lemma process_all_ids:
  "map id_val (fst (process_all self xs)) =
     [length (data self)..<length (data self) + length xs]"
proof (induction xs arbitrary: self)
  case Nil
  show ?case by simp
next
  case (Cons x xs)
  let ?n = "length (data self)"
  have "map id_val (fst (process_all self (x # xs))) =
          ?n # map id_val (fst (process_all (snd (process_data self x)) xs))"
    by (simp add: process_all_Cons process_data_fst del: process_all.simps(2))
  also have "\<dots> = ?n # [Suc ?n..<Suc ?n + length xs]"
    by (simp add: Cons process_data_snd)
  also have "\<dots> = ?n # [Suc ?n..<?n + length (x # xs)]"
    by simp
  also have "\<dots> = [?n..<?n + length (x # xs)]"
    by (rule upt_conv_Cons [symmetric]) simp
  finally show ?case .
qed

lemma ids_match_index_init: "ids_match_index DataProcessor_init"
  by (simp add: ids_match_index_def DataProcessor_init_def)

lemma process_data_inv:
  "ids_match_index self \<Longrightarrow> ids_match_index (snd (process_data self x))"
  by (simp add: ids_match_index_def process_data_snd process_data_fst)

lemma process_all_inv:
  "ids_match_index self \<Longrightarrow> ids_match_index (snd (process_all self xs))"
proof -
  assume inv: "ids_match_index self"
  have "map id_val (data (snd (process_all self xs))) =
          map id_val (data self) @ map id_val (fst (process_all self xs))"
    by (simp add: process_all_data)
  also have "\<dots> = [0..<length (data self)] @
          [length (data self)..<length (data self) + length xs]"
    using inv by (simp add: ids_match_index_def process_all_ids)
  also have "\<dots> = [0..<length (data self) + length xs]"
    by (simp add: upt_add_eq_append [symmetric])
  finally show ?thesis
    by (simp add: ids_match_index_def process_all_data process_all_length)
qed

text \<open>
  C1. For every sequence of N successive calls of \<open>process_data\<close> on a freshly
  constructed instance, the identifiers of the returned dictionaries are exactly
  \<open>0, 1, \<dots>, N - 1\<close> in call order (and there are N of them); each call assigns the
  length \<^verbatim>\<open>self.data\<close> has at the moment of the call.
\<close>

theorem process_data_ids_sequential:
  "map id_val (fst (process_all DataProcessor_init xs)) = [0..<length xs]
   \<and> length (fst (process_all DataProcessor_init xs)) = length xs
   \<and> id_val (fst (process_data self x)) = length (data self)"
  using process_all_ids [of DataProcessor_init xs]
  by (simp add: process_all_length process_data_fst DataProcessor_init_def)

text \<open>
  C2. For every input and every instance, the dictionary returned by \<open>process_data\<close>
  has status \<^verbatim>\<open>'processed'\<close> and the input as its content; the first call with
  \<^verbatim>\<open>"test content"\<close> yields identifier 0, content \<^verbatim>\<open>"test content"\<close>, status
  \<^verbatim>\<open>'processed'\<close>.
\<close>

theorem process_data_status_content:
  "status (fst (process_data self x)) = ''processed''
   \<and> content (fst (process_data self x)) = x
   \<and> fst (process_data DataProcessor_init ''test content'') =
       \<lparr>id_val = 0, content = ''test content'', status = ''processed''\<rparr>"
  by (simp add: process_data_fst DataProcessor_init_def)

text \<open>
  C4. The invariant of \<open>DataProcessor\<close>: \<^verbatim>\<open>self.data\<close> is empty at construction, where
  the invariant holds; one call and any run of calls preserve it; the dictionary a
  call returns is the last element of \<^verbatim>\<open>self.data\<close> afterwards. After any number of
  calls on a fresh instance, \<^verbatim>\<open>self.data\<close> is the list of the returned dictionaries in
  call order, every stored identifier equals its index, and the identifiers are
  strictly increasing.
\<close>

theorem ids_match_index_invariant:
  fixes self :: "'a DataProcessor" and x :: 'a and xs :: "'a list"
  shows "data (DataProcessor_init :: 'a DataProcessor) = []
   \<and> ids_match_index (DataProcessor_init :: 'a DataProcessor)
   \<and> (ids_match_index self \<longrightarrow> ids_match_index (snd (process_data self x)))
   \<and> last (data (snd (process_data self x))) = fst (process_data self x)
   \<and> (ids_match_index self \<longrightarrow> ids_match_index (snd (process_all self xs)))
   \<and> ids_match_index (snd (process_all DataProcessor_init xs))
   \<and> data (snd (process_all DataProcessor_init xs)) = fst (process_all DataProcessor_init xs)
   \<and> (\<forall>i<length xs. id_val (data (snd (process_all DataProcessor_init xs)) ! i) = i)
   \<and> sorted_wrt (<) (map id_val (data (snd (process_all DataProcessor_init xs))))"
proof -
  let ?s = "snd (process_all (DataProcessor_init :: 'a DataProcessor) xs)"
  have init: "data (DataProcessor_init :: 'a DataProcessor) = []"
    by (simp add: DataProcessor_init_def)
  have step: "ids_match_index self \<longrightarrow> ids_match_index (snd (process_data self x))"
    by (simp add: process_data_inv)
  have lst: "last (data (snd (process_data self x))) = fst (process_data self x)"
    by (simp add: process_data_snd)
  have run: "ids_match_index ?s"
    by (rule process_all_inv [OF ids_match_index_init])
  have dat: "data ?s = fst (process_all DataProcessor_init xs)"
    by (simp add: process_all_data init)
  have ids: "map id_val (data ?s) = [0..<length xs]"
    using run by (simp add: ids_match_index_def dat process_all_length)
  have nth: "\<forall>i<length xs. id_val (data ?s ! i) = i"
  proof (intro allI impI)
    fix i assume i: "i < length xs"
    then have "i < length (data ?s)"
      by (simp add: dat process_all_length)
    then have "id_val (data ?s ! i) = map id_val (data ?s) ! i"
      by simp
    also have "\<dots> = i"
      using i by (simp add: ids)
    finally show "id_val (data ?s ! i) = i" .
  qed
  have srt: "sorted_wrt (<) (map id_val (data ?s))"
    by (simp add: ids)
  from init ids_match_index_init step lst process_all_inv run dat nth srt
  show ?thesis by blast
qed

theorem ids_match_index_invariant_witness:
  "ids_match_index \<lparr>data = [\<lparr>id_val = 0, content = ''a'', status = ''processed''\<rparr>]\<rparr>
   \<and> ids_match_index
        (snd (process_data \<lparr>data = [\<lparr>id_val = 0, content = ''a'', status = ''processed''\<rparr>]\<rparr> ''b''))
   \<and> ids_match_index
        (snd (process_all \<lparr>data = [\<lparr>id_val = 0, content = ''a'', status = ''processed''\<rparr>]\<rparr>
               [''a'', ''b'']))
   \<and> (1::nat) < length [''a'', ''b'']
   \<and> id_val (data (snd (process_all DataProcessor_init [''a'', ''b''])) ! 1) = 1"
  using ids_match_index_invariant
    [of "\<lparr>data = [\<lparr>id_val = 0, content = ''a'', status = ''processed''\<rparr>]\<rparr>" "''b''"
        "[''a'', ''b'']"]
  by (simp add: ids_match_index_def process_data_def DataProcessor_init_def Let_def)

text \<open>
  C5. Frame condition: a call of \<open>process_data\<close> changes the instance only by appending
  one dictionary, the one it returns, at the end of \<^verbatim>\<open>self.data\<close>: the list is one
  longer, its old part is the old list, and every dictionary stored before the call
  is unchanged at its index.
\<close>

theorem process_data_appends_one:
  "snd (process_data self x) = \<lparr>data = data self @ [fst (process_data self x)]\<rparr>
   \<and> length (data (snd (process_data self x))) = length (data self) + 1
   \<and> take (length (data self)) (data (snd (process_data self x))) = data self
   \<and> (\<forall>i<length (data self). data (snd (process_data self x)) ! i = data self ! i)"
proof -
  have whole: "snd (process_data self x) = \<lparr>data = data self @ [fst (process_data self x)]\<rparr>"
    by (simp add: process_data_def Let_def)
  have "\<forall>i<length (data self). data (snd (process_data self x)) ! i = data self ! i"
    by (simp add: process_data_snd nth_append)
  with whole show ?thesis
    by (simp add: process_data_snd)
qed

theorem process_data_appends_one_witness:
  "(0::nat) < length (data \<lparr>data = [\<lparr>id_val = 0, content = ''a'', status = ''processed''\<rparr>]\<rparr>)
   \<and> data (snd (process_data
               \<lparr>data = [\<lparr>id_val = 0, content = ''a'', status = ''processed''\<rparr>]\<rparr> ''b'')) ! 0 =
       \<lparr>id_val = 0, content = ''a'', status = ''processed''\<rparr>
   \<and> data (snd (process_data
               \<lparr>data = [\<lparr>id_val = 0, content = ''a'', status = ''processed''\<rparr>]\<rparr> ''b'')) =
       [\<lparr>id_val = 0, content = ''a'', status = ''processed''\<rparr>,
        \<lparr>id_val = 1, content = ''b'', status = ''processed''\<rparr>]"
  using process_data_appends_one
    [of "\<lparr>data = [\<lparr>id_val = 0, content = ''a'', status = ''processed''\<rparr>]\<rparr>" "''b''"]
  by (simp add: process_data_fst)

text \<open>
  C6. \<open>process_data\<close> has no error condition: for every input, of any type, and every
  instance, the call returns a dictionary, the one built from the input, and leaves
  the instance with that dictionary appended.
\<close>

theorem process_data_total:
  "\<exists>r self'. process_data self x = (r, self')
      \<and> r = \<lparr>id_val = length (data self), content = x, status = ''processed''\<rparr>
      \<and> data self' = data self @ [r]"
  by (simp add: process_data_def Let_def)

text \<open>
  C7. The identifier a call returns depends only on how many dictionaries the instance
  holds, not on the inputs that produced them: two instances with equally long
  \<^verbatim>\<open>data\<close> return the same identifier whatever the inputs, also inputs of different
  types; so do two fresh instances after equally many calls, where the identifier is
  the number of prior calls. The second call on a fresh instance yields 1 whatever
  the first input was.
\<close>

theorem process_data_id_independent:
  fixes s1 :: "'a DataProcessor" and s2 :: "'b DataProcessor"
    and xs :: "'a list" and ys :: "'b list"
  shows "(length (data s1) = length (data s2) \<longrightarrow>
            id_val (fst (process_data s1 x)) = id_val (fst (process_data s2 y)))
   \<and> (length xs = length ys \<longrightarrow>
        id_val (fst (process_data (snd (process_all DataProcessor_init xs)) x)) =
        id_val (fst (process_data (snd (process_all DataProcessor_init ys)) y)))
   \<and> id_val (fst (process_data (snd (process_all DataProcessor_init xs)) x)) = length xs
   \<and> id_val (fst (process_data (snd (process_data DataProcessor_init a)) b)) = 1"
  by (simp add: process_data_fst process_data_snd process_all_data process_all_length
        DataProcessor_init_def)

theorem process_data_id_independent_witness:
  "length (data \<lparr>data = [\<lparr>id_val = 0, content = ''a'', status = ''processed''\<rparr>]\<rparr>) =
     length (data \<lparr>data = [\<lparr>id_val = 0, content = ''z'', status = ''processed''\<rparr>]\<rparr>)
   \<and> id_val (fst (process_data
         \<lparr>data = [\<lparr>id_val = 0, content = ''a'', status = ''processed''\<rparr>]\<rparr> ''e'')) =
       id_val (fst (process_data
         \<lparr>data = [\<lparr>id_val = 0, content = ''z'', status = ''processed''\<rparr>]\<rparr> ''f''))
   \<and> length [''a'', ''b''] = length [''c'', ''d'']
   \<and> id_val (fst (process_data (snd (process_all DataProcessor_init [''a'', ''b''])) ''e'')) =
       id_val (fst (process_data (snd (process_all DataProcessor_init [''c'', ''d''])) ''f''))
   \<and> id_val (fst (process_data (snd (process_all DataProcessor_init [''a'', ''b''])) ''e'')) = 2"
  using process_data_id_independent
    [where ?s1.0 = "\<lparr>data = [\<lparr>id_val = 0, content = ''a'', status = ''processed''\<rparr>]\<rparr>"
       and ?s2.0 = "\<lparr>data = [\<lparr>id_val = 0, content = ''z'', status = ''processed''\<rparr>]\<rparr>"
       and x = "''e''" and y = "''f''"
       and xs = "[''a'', ''b'']" and ys = "[''c'', ''d'']"
       and a = "''a''" and b = "''b''"]
  by simp

subsection \<open>The summation loop\<close>

lemma calculate_sum_loop_foldl:
  "calculate_sum_loop total' numbers = foldl (\<lambda>acc num. acc + num) total' numbers"
  by (induction numbers arbitrary: total') simp_all

lemma calculate_sum_loop_sum_list:
  fixes total' :: "'a::monoid_add"
  shows "calculate_sum_loop total' numbers = total' + sum_list numbers"
  by (induction numbers arbitrary: total') (simp_all add: add.assoc)

text \<open>
  C3. For every finite sequence of numbers, \<open>calculate_sum\<close> returns the
  left-to-right accumulation starting from zero, which visits each element once in
  order. Where the addition of the element type is exact (associative, with neutral
  element 0, as for Python's integers and fractions), that accumulation is the
  mathematical sum of the elements. The empty sequence yields 0 and \<open>[1, 2, 3, 4, 5]\<close>
  yields 15.
\<close>

theorem calculate_sum_is_sum:
  fixes numbers :: "'a::monoid_add list" and ns :: "'b::{zero,plus} list"
  shows "calculate_sum ns = foldl (\<lambda>acc num. acc + num) 0 ns
       \<and> calculate_sum numbers = sum_list numbers
       \<and> calculate_sum ([] :: 'b list) = 0
       \<and> calculate_sum [1, 2, 3, 4, 5 :: int] = 15"
  by (simp add: calculate_sum_def calculate_sum_loop_foldl [symmetric]
        calculate_sum_loop_sum_list)

text \<open>
  With floats every addition rounds, and the result need not be the mathematical sum:
  \<^verbatim>\<open>calculate_sum([1e16, 1.0, -1e16])\<close> is \<^verbatim>\<open>0.0\<close>, since \<^verbatim>\<open>1e16 + 1.0\<close> rounds to
  \<^verbatim>\<open>1e16\<close>, while the three numbers add up to 1.
\<close>

theorem calculate_sum_float_not_exact:
  "float_val (calculate_sum
       [float_of_int (10 ^ 16), float_of_int 1, float_of_int (- (10 ^ 16))]) = Some 0
   \<and> exact_sum [float_of_int (10 ^ 16), float_of_int 1, float_of_int (- (10 ^ 16))] = Some 1
   \<and> float_val (calculate_sum
       [float_of_int (10 ^ 16), float_of_int 1, float_of_int (- (10 ^ 16))]) \<noteq>
       exact_sum [float_of_int (10 ^ 16), float_of_int 1, float_of_int (- (10 ^ 16))]"
proof -
  have run: "calculate_sum
      [float_of_int (10 ^ 16), float_of_int 1, float_of_int (- (10 ^ 16))] = Finite 0 0"
    by code_simp
  have inputs: "[float_of_int (10 ^ 16), float_of_int 1, float_of_int (- (10 ^ 16))] =
      [Finite 152587890625 16, Finite 1 0, Finite (- 152587890625) 16]"
    by code_simp
  have result: "float_val (calculate_sum
      [float_of_int (10 ^ 16), float_of_int 1, float_of_int (- (10 ^ 16))]) = Some 0"
    unfolding run by simp
  have exact: "exact_sum
      [float_of_int (10 ^ 16), float_of_int 1, float_of_int (- (10 ^ 16))] = Some 1"
    unfolding inputs by (simp add: exact_sum_def)
  show ?thesis
    unfolding result exact by simp
qed



subsection \<open>Module scope\<close>

text \<open>
  C10. Once \<^verbatim>\<open>sample.py\<close> is loaded, the global \<^verbatim>\<open>processor\<close> holds exactly one
  dictionary, \<^verbatim>\<open>result\<close> is the dictionary with identifier 0, content
  \<^verbatim>\<open>"test content"\<close> and status \<^verbatim>\<open>'processed'\<close>, and \<^verbatim>\<open>total\<close> is 15.
\<close>

theorem sample_module_globals:
  "data (processor sample_module) =
     [\<lparr>id_val = 0, content = ''test content'', status = ''processed''\<rparr>]
   \<and> length (data (processor sample_module)) = 1
   \<and> result sample_module =
       \<lparr>id_val = 0, content = ''test content'', status = ''processed''\<rparr>
   \<and> total_val sample_module = 15"
  by (simp add: sample_module_def process_data_def DataProcessor_init_def Let_def
        calculate_sum_def)

subsection \<open>The search fixtures\<close>

text \<open>
  C8. \<open>search_target_function\<close>, \<open>another_function\<close>, \<open>method_one\<close> and \<open>method_two\<close>
  each return \<^verbatim>\<open>None\<close> and leave every state as it was; \<open>another_function\<close> agrees with
  \<open>search_target_function\<close> and \<open>method_two\<close> with \<open>method_one\<close>.
\<close>

theorem fixtures_return_none:
  "search_target_function s = (PyNone, s)
   \<and> another_function s = (PyNone, s)
   \<and> method_one self s = (PyNone, s)
   \<and> method_two self s = (PyNone, s)
   \<and> another_function s = search_target_function s
   \<and> method_two self s = method_one self s"
  by (simp add: search_target_function_def another_function_def method_one_def
        method_two_def)

end
